theory Spec2Isabelle
  imports Main "HOL-Library.Word" "HOL-Library.AList"
begin

section \<open>The RabbitMQ broker controller of asyncapi-codegen\<close>

text \<open>
  A shallow embedding of \<^verbatim>\<open>pkg/extensions/brokers/rabbitmq/controller.go\<close>:
  the controller, its functional options, \<^verbatim>\<open>Publish\<close>, \<^verbatim>\<open>Subscribe\<close>,
  \<^verbatim>\<open>Close\<close> and the acknowledgement handler. The AMQP client library is the
  environment: every call into it is recorded in a trace, and whether a call fails is
  decided by an arbitrary function of the trace so far.
\<close>

subsection \<open>Bytes, strings and header tables\<close>

type_synonym byte = "8 word"
type_synonym bytes = "byte list"

text \<open>
  A Go string is a sequence of bytes, as an Isabelle \<^typ>\<open>string\<close> is; the conversion
  \<^verbatim>\<open>[]byte(s)\<close> yields those bytes.
\<close>

definition bytes_of_string :: "string \<Rightarrow> bytes" where
  "bytes_of_string s = map of_char s"

text \<open>
  A value of the wire table \<^verbatim>\<open>amqp.Table\<close> (\<^verbatim>\<open>map[string]interface{}\<close>):
  a byte slice, a string, or a value of any other dynamic type \<^typ>\<open>'o\<close>.
\<close>

datatype 'o wire_value = Bytes bytes | Str string | Other 'o

text \<open>
  A Go map is an association list with distinct keys, in the order in which \<^verbatim>\<open>range\<close>
  happens to visit it; an assignment \<^verbatim>\<open>m[k] = v\<close> is \<^const>\<open>AList.update\<close>.
\<close>

type_synonym Headers = "(string \<times> bytes) list"
type_synonym 'o Table = "(string \<times> 'o wire_value) list"

text \<open>
  \<^verbatim>\<open>Publish\<close>, "Convert headers":
  \<^verbatim>\<open>headers := amqp.Table{}; for k, v := range bm.Headers { headers[k] = v }\<close>
\<close>

definition encode_headers :: "Headers \<Rightarrow> 'o Table" where
  "encode_headers h = fold (\<lambda>(k, v) headers. AList.update k (Bytes v) headers) h []"

text \<open>
  The type switch of the delivery loop of \<^verbatim>\<open>Subscribe\<close>. The parameter
  \<open>Sprintf_v\<close> stands for \<^verbatim>\<open>fmt.Sprintf("%v", v)\<close> of the Go standard library.
\<close>

fun coerce :: "('o \<Rightarrow> string) \<Rightarrow> 'o wire_value \<Rightarrow> bytes" where
  "coerce Sprintf_v (Bytes v) = v"
| "coerce Sprintf_v (Str v) = bytes_of_string v"
| "coerce Sprintf_v (Other v) = bytes_of_string (Sprintf_v v)"

text \<open>
  \<^verbatim>\<open>Subscribe\<close>, "Get headers":
  \<^verbatim>\<open>headers := make(map[string][]byte); for key, value := range delivery.Headers { ... }\<close>
\<close>

definition decode_headers :: "('o \<Rightarrow> string) \<Rightarrow> 'o Table \<Rightarrow> Headers" where
  "decode_headers Sprintf_v t =
     fold (\<lambda>(key, value) headers. AList.update key (coerce Sprintf_v value) headers) t []"

subsection \<open>Errors and outcomes\<close>

text \<open>
  An error of the AMQP client, or an error wrapped by \<^verbatim>\<open>fmt.Errorf("...: %w", err)\<close>
  with the text in front of it.
\<close>

datatype error = AmqpError string | Errorf string error


text \<open>A call either returns or panics (a method called through a nil pointer).\<close>

datatype 'a outcome = Returns 'a | Panics

subsection \<open>The transport and its trace\<close>

type_synonym conn_id = nat
type_synonym chan_id = nat

text \<open>The transport configuration \<^verbatim>\<open>amqp.Config\<close>, opaque to the controller.\<close>

datatype Config = Config string

text \<open>
  A logger: the default \<^verbatim>\<open>extensions.DummyLogger{}\<close> or one given to
  \<^verbatim>\<open>WithLogger\<close>. A nil logger is not modelled.
\<close>

datatype Logger = DummyLogger | CustomLogger nat

record 'o Publishing =
  ContentType :: string
  Publishing_Body :: bytes
  Publishing_Headers :: "'o Table"

text \<open>
  The calls the controller makes, with their arguments in the order of the Go
  signatures. A nil table argument is \<^const>\<open>None\<close>.
\<close>

datatype 'o op =
    Dial string
  | DialConfig string Config
  | Channel conn_id
  | QueueDeclare chan_id string bool bool bool bool "'o Table option"
  | ChannelPublish chan_id string string bool bool "'o Publishing"
  | Consume chan_id string string bool bool bool bool "'o Table option"
  | Cancel chan_id string bool
  | ChannelClose chan_id
  | ConnectionClose conn_id
  | Ack "64 word" bool
  | Nack "64 word" bool bool
  | LoggerError Logger string

text \<open>
  The transport decides, from the trace that ends with the current call, whether that
  call fails. A connection or channel is named by the position of the call that
  created it.
\<close>

type_synonym 'o transport = "'o op list \<Rightarrow> error option"

definition call :: "'o transport \<Rightarrow> 'o op \<Rightarrow> 'o op list \<Rightarrow> error option \<times> 'o op list" where
  "call T x tr = (T (tr @ [x]), tr @ [x])"

subsection \<open>Controller and options\<close>

record Controller =
  url :: string
  connection :: "conn_id option"
  logger :: Logger
  queueGroup :: string

type_synonym 'o ControllerOption =
  "'o transport \<Rightarrow> Controller \<Rightarrow> 'o op list \<Rightarrow> (error option \<times> Controller) \<times> 'o op list"

definition WithQueueGroup :: "string \<Rightarrow> 'o ControllerOption" where
  "WithQueueGroup name T controller tr = ((None, controller\<lparr>queueGroup := name\<rparr>), tr)"

definition WithLogger :: "Logger \<Rightarrow> 'o ControllerOption" where
  "WithLogger lg T controller tr = ((None, controller\<lparr>logger := lg\<rparr>), tr)"

definition WithConnectionOpts :: "Config \<Rightarrow> 'o ControllerOption" where
  "WithConnectionOpts config T controller tr =
     (case call T (DialConfig (url controller) config) tr of
        (Some err, tr') \<Rightarrow> ((Some (Errorf ''could not connect to RabbitMQ: '' err), controller), tr')
      | (None, tr') \<Rightarrow> ((None, controller\<lparr>connection := Some (length tr)\<rparr>), tr'))"

text \<open>The loop "Execute options" of \<^verbatim>\<open>NewController\<close>.\<close>

fun execute_options ::
  "'o transport \<Rightarrow> 'o ControllerOption list \<Rightarrow> Controller \<Rightarrow> 'o op list \<Rightarrow>
   (error + Controller) \<times> 'o op list" where
  "execute_options T [] controller tr = (Inr controller, tr)"
| "execute_options T (option # options) controller tr =
     (case option T controller tr of
        ((Some err, _), tr') \<Rightarrow> (Inl (Errorf ''could not apply option to controller: '' err), tr')
      | ((None, controller'), tr') \<Rightarrow> execute_options T options controller' tr')"

text \<open>
  \<^verbatim>\<open>NewController\<close>. The constant \<^verbatim>\<open>brokers.DefaultQueueGroupID\<close> is declared
  in another package and is a parameter here.
\<close>

definition NewController ::
  "string \<Rightarrow> 'o transport \<Rightarrow> string \<Rightarrow> 'o ControllerOption list \<Rightarrow> 'o op list \<Rightarrow>
   (error + Controller) \<times> 'o op list" where
  "NewController DefaultQueueGroupID T u options tr =
     (case execute_options T options
             \<lparr>url = u, connection = None, logger = DummyLogger, queueGroup = DefaultQueueGroupID\<rparr> tr of
        (Inl err, tr') \<Rightarrow> (Inl err, tr')
      | (Inr controller, tr') \<Rightarrow>
          (if connection controller = None then
             (case call T (Dial u) tr' of
                (Some err, tr'') \<Rightarrow> (Inl (Errorf ''could not connect to RabbitMQ: '' err), tr'')
              | (None, tr'') \<Rightarrow> (Inr (controller\<lparr>connection := Some (length tr')\<rparr>), tr''))
           else (Inr controller, tr')))"

subsection \<open>Publish\<close>

record BrokerMessage =
  Headers :: Headers
  Payload :: bytes

text \<open>
  The body of \<^verbatim>\<open>Publish\<close> after \<^verbatim>\<open>defer channel.Close()\<close>: declare the queue,
  convert the headers, publish.
\<close>

definition publish_on ::
  "'o transport \<Rightarrow> chan_id \<Rightarrow> string \<Rightarrow> BrokerMessage \<Rightarrow> 'o op list \<Rightarrow> error option \<times> 'o op list" where
  "publish_on T channel queueName bm tr =
     (case call T (QueueDeclare channel queueName False False False False None) tr of
        (Some err, tr') \<Rightarrow> (Some (Errorf ''failed to declare queue: '' err), tr')
      | (None, tr') \<Rightarrow>
          call T (ChannelPublish channel [] queueName False False
                    \<lparr>ContentType = ''text/plain'', Publishing_Body = Payload bm,
                     Publishing_Headers = encode_headers (Headers bm)\<rparr>) tr')"

text \<open>
  \<^verbatim>\<open>Publish\<close>: the deferred \<^verbatim>\<open>channel.Close()\<close> runs after the body on every
  path, and its own result is dropped.
\<close>

definition Publish ::
  "'o transport \<Rightarrow> Controller \<Rightarrow> string \<Rightarrow> BrokerMessage \<Rightarrow> 'o op list \<Rightarrow>
   error option outcome \<times> 'o op list" where
  "Publish T c queueName bm tr =
     (case connection c of
        None \<Rightarrow> (Panics, tr)
      | Some conn \<Rightarrow>
          (case call T (Channel conn) tr of
             (Some err, tr') \<Rightarrow> (Returns (Some err), tr')
           | (None, tr') \<Rightarrow>
               (case publish_on T (length tr) queueName bm tr' of
                  (r, tr'') \<Rightarrow> (Returns r, snd (call T (ChannelClose (length tr)) tr'')))))"

subsection \<open>Deliveries and acknowledgement\<close>

record 'o Delivery =
  Delivery_Headers :: "'o Table"
  Delivery_Body :: bytes
  DeliveryTag :: "64 word"

record 'o AcknowledgementHandler =
  Delivery :: "'o Delivery option"

record 'o AcknowledgeableBrokerMessage =
  message :: BrokerMessage
  ack :: "'o AcknowledgementHandler"

definition AckMessage ::
  "'o transport \<Rightarrow> 'o AcknowledgementHandler \<Rightarrow> 'o op list \<Rightarrow> unit outcome \<times> 'o op list" where
  "AckMessage T h tr =
     (case Delivery h of
        None \<Rightarrow> (Panics, tr)
      | Some d \<Rightarrow> (Returns (), snd (call T (Ack (DeliveryTag d) False) tr)))"

definition NakMessage ::
  "'o transport \<Rightarrow> 'o AcknowledgementHandler \<Rightarrow> 'o op list \<Rightarrow> unit outcome \<times> 'o op list" where
  "NakMessage T h tr =
     (case Delivery h of
        None \<Rightarrow> (Panics, tr)
      | Some d \<Rightarrow> (Returns (), snd (call T (Nack (DeliveryTag d) False False) tr)))"

subsection \<open>Subscribe\<close>

text \<open>A Go channel made by \<^verbatim>\<open>make(chan T, n)\<close>: its capacity and its buffered values.\<close>

record 'a chan =
  cap :: nat
  buf :: "'a list"

definition make_chan :: "nat \<Rightarrow> 'a chan" where
  "make_chan n = \<lparr>cap = n, buf = []\<rparr>"

text \<open>
  Modelled from the spec: the type \<^verbatim>\<open>extensions.BrokerChannelSubscription\<close> and its
  constructor \<^verbatim>\<open>NewBrokerChannelSubscription\<close> are not part of these sources. A
  subscription is "backed by a bounded internal buffer, plus a cancellation control";
  the constructor receives the two channels that \<^verbatim>\<open>Subscribe\<close> makes.
\<close>

record 'o BrokerChannelSubscription =
  messages :: "'o AcknowledgeableBrokerMessage chan"
  cancel :: "unit chan"

definition NewBrokerChannelSubscription ::
  "'o AcknowledgeableBrokerMessage chan \<Rightarrow> unit chan \<Rightarrow> 'o BrokerChannelSubscription" where
  "NewBrokerChannelSubscription m c = \<lparr>messages = m, cancel = c\<rparr>"

text \<open>
  The two background tasks that a successful \<^verbatim>\<open>Subscribe\<close> leaves running: the one
  started by \<^verbatim>\<open>sub.WaitForCancellationAsync\<close>, holding the cleanup closure (which
  captures the channel and the controller's logger), and the goroutine that ranges
  over the deliveries of the channel.
\<close>

datatype task = WaitForCancellation chan_id Logger | Forwarding chan_id

text \<open>
  \<^verbatim>\<open>Subscribe\<close>. The constant \<^verbatim>\<open>brokers.BrokerMessagesQueueSize\<close> is declared in
  another package and is a parameter here. The result is what is returned, the trace,
  and the tasks started.
\<close>

definition Subscribe ::
  "nat \<Rightarrow> 'o transport \<Rightarrow> Controller \<Rightarrow> string \<Rightarrow> 'o op list \<Rightarrow>
   (error + 'o BrokerChannelSubscription) outcome \<times> 'o op list \<times> task list" where
  "Subscribe BrokerMessagesQueueSize T c queueName tr =
     (let sub = NewBrokerChannelSubscription (make_chan BrokerMessagesQueueSize) (make_chan 1) in
      case connection c of
        None \<Rightarrow> (Panics, tr, [])
      | Some conn \<Rightarrow>
          (case call T (Channel conn) tr of
             (Some err, tr1) \<Rightarrow> (Returns (Inl err), tr1, [])
           | (None, tr1) \<Rightarrow>
               (case call T (QueueDeclare (length tr) queueName False False False False None) tr1 of
                  (Some err, tr2) \<Rightarrow>
                    (Returns (Inl (Errorf ''failed to declare queue: '' err)), tr2, [])
                | (None, tr2) \<Rightarrow>
                    (case call T (Consume (length tr) queueName [] False False False False None) tr2 of
                       (Some err, tr3) \<Rightarrow>
                         (Returns (Inl (Errorf ''failed to start consuming from queue: '' err)), tr3, [])
                     | (None, tr3) \<Rightarrow>
                         (Returns (Inr sub), tr3,
                          [WaitForCancellation (length tr) (logger c), Forwarding (length tr)])))))"


text \<open>\<^verbatim>\<open>Close\<close>: the result of \<^verbatim>\<open>connection.Close()\<close> is dropped.\<close>

definition Close :: "'o transport \<Rightarrow> Controller \<Rightarrow> 'o op list \<Rightarrow> 'o op list" where
  "Close T c tr =
     (case connection c of
        Some conn \<Rightarrow> snd (call T (ConnectionClose conn) tr)
      | None \<Rightarrow> tr)"

subsection \<open>The delivery pipeline\<close>

text \<open>
  The body of the delivery loop: convert the headers, wrap the body, attach a handler
  that points to this delivery. The loop variable \<^verbatim>\<open>delivery\<close> is taken as one
  variable per iteration, as it is from Go 1.22 on.
\<close>

definition forward :: "('o \<Rightarrow> string) \<Rightarrow> 'o Delivery \<Rightarrow> 'o AcknowledgeableBrokerMessage" where
  "forward Sprintf_v delivery =
     \<lparr>message = \<lparr>Headers = decode_headers Sprintf_v (Delivery_Headers delivery),
                  Payload = Delivery_Body delivery\<rparr>,
      ack = \<lparr>Delivery = Some delivery\<rparr>\<rparr>"

text \<open>
  Modelled from the spec: \<^verbatim>\<open>TransmitReceivedMessage\<close> of the extensions package is
  not part of these sources. It "enqueues an AcknowledgeableBrokerMessage onto the
  bounded buffer; blocks (applies backpressure) if the buffer is full rather than
  dropping messages". \<^const>\<open>None\<close> is the blocked call.
\<close>

definition TransmitReceivedMessage ::
  "'o BrokerChannelSubscription \<Rightarrow> 'o AcknowledgeableBrokerMessage \<Rightarrow>
   'o BrokerChannelSubscription option" where
  "TransmitReceivedMessage sub msg =
     (if length (buf (messages sub)) < cap (messages sub)
      then Some (sub\<lparr>messages := (messages sub)\<lparr>buf := buf (messages sub) @ [msg]\<rparr>\<rparr>)
      else None)"

text \<open>
  One subscription at work: the deliveries the transport has handed over so far, those
  still waiting in the delivery channel \<^verbatim>\<open>msgs\<close>, the subscription with its
  buffer, and what the consumer has taken out.
\<close>

record 'o pipeline =
  received :: "'o Delivery list"
  msgs :: "'o Delivery list"
  subscription :: "'o BrokerChannelSubscription"
  consumed :: "'o AcknowledgeableBrokerMessage list"

definition pipeline_of :: "'o BrokerChannelSubscription \<Rightarrow> 'o pipeline" where
  "pipeline_of sub = \<lparr>received = [], msgs = [], subscription = sub, consumed = []\<rparr>"

text \<open>
  What can happen next: the transport delivers; the loop takes the next delivery and
  transmits it into the buffer; the consumer receives from the buffer; or the loop
  hands its message to a consumer already waiting on the empty buffer (a Go send
  completes at once then, and this is the only way through a channel of capacity 0).
  An event that cannot happen in a state (a blocked send, a receive with nothing to
  take) yields \<^const>\<open>None\<close>.
\<close>

datatype 'o event = Arrives "'o Delivery" | Transmits | Hands_over | Receives

fun step :: "('o \<Rightarrow> string) \<Rightarrow> 'o pipeline \<Rightarrow> 'o event \<Rightarrow> 'o pipeline option" where
  "step Sprintf_v s (Arrives d) = Some (s\<lparr>received := received s @ [d], msgs := msgs s @ [d]\<rparr>)"
| "step Sprintf_v s Transmits =
     (case msgs s of
        [] \<Rightarrow> None
      | delivery # rest \<Rightarrow>
          (case TransmitReceivedMessage (subscription s) (forward Sprintf_v delivery) of
             None \<Rightarrow> None
           | Some sub \<Rightarrow> Some (s\<lparr>msgs := rest, subscription := sub\<rparr>)))"
| "step Sprintf_v s Hands_over =
     (case msgs s of
        [] \<Rightarrow> None
      | delivery # rest \<Rightarrow>
          (if buf (messages (subscription s)) = []
           then Some (s\<lparr>msgs := rest, consumed := consumed s @ [forward Sprintf_v delivery]\<rparr>)
           else None))"
| "step Sprintf_v s Receives =
     (case buf (messages (subscription s)) of
        [] \<Rightarrow> None
      | m # ms \<Rightarrow>
          Some (s\<lparr>subscription := (subscription s)\<lparr>messages := (messages (subscription s))\<lparr>buf := ms\<rparr>\<rparr>,
                  consumed := consumed s @ [m]\<rparr>))"

fun run :: "('o \<Rightarrow> string) \<Rightarrow> 'o pipeline \<Rightarrow> 'o event list \<Rightarrow> 'o pipeline option" where
  "run Sprintf_v s [] = Some s"
| "run Sprintf_v s (e # es) =
     (case step Sprintf_v s e of None \<Rightarrow> None | Some s' \<Rightarrow> run Sprintf_v s' es)"

fun arrivals :: "'o event list \<Rightarrow> 'o Delivery list" where
  "arrivals [] = []"
| "arrivals (Arrives d # es) = d # arrivals es"
| "arrivals (_ # es) = arrivals es"

subsection \<open>Cancellation of a subscription\<close>





subsection \<open>Sample inputs\<close>

text \<open>
  A controller connected by the first call of a trace, and the message of the
  repository's own test.
\<close>

definition test_controller :: Controller where
  "test_controller =
     \<lparr>url = ''amqp://rabbitmq:5672'', connection = Some 0, logger = DummyLogger,
      queueGroup = ''CoreRabbitmqValidateAckMechanism''\<rparr>"

definition test_trace :: "'o op list" where
  "test_trace = [Dial ''amqp://rabbitmq:5672'']"

definition test_message :: BrokerMessage where
  "test_message = \<lparr>Headers = [(''id'', [1])], Payload = bytes_of_string ''testmessage''\<rparr>"

text \<open>A delivery of that message, with a header that is neither bytes nor a string.\<close>

definition test_delivery :: "64 word \<Rightarrow> bool Delivery" where
  "test_delivery tag =
     \<lparr>Delivery_Headers = [(''redelivered'', Other False)],
      Delivery_Body = bytes_of_string ''testmessage'', DeliveryTag = tag\<rparr>"

text \<open>A transport on which every call succeeds, and one that refuses the calls chosen.\<close>

definition healthy :: "'o transport" where
  "healthy tr = None"

definition refusing :: "('o op \<Rightarrow> bool) \<Rightarrow> 'o transport" where
  "refusing P tr = (if tr \<noteq> [] \<and> P (last tr) then Some (AmqpError ''refused'') else None)"

fun is_Channel :: "'o op \<Rightarrow> bool" where
  "is_Channel (Channel _) = True"
| "is_Channel _ = False"

fun is_QueueDeclare :: "'o op \<Rightarrow> bool" where
  "is_QueueDeclare (QueueDeclare _ _ _ _ _ _ _) = True"
| "is_QueueDeclare _ = False"

fun is_ChannelPublish :: "'o op \<Rightarrow> bool" where
  "is_ChannelPublish (ChannelPublish _ _ _ _ _ _) = True"
| "is_ChannelPublish _ = False"

fun is_Consume :: "'o op \<Rightarrow> bool" where
  "is_Consume (Consume _ _ _ _ _ _ _ _) = True"
| "is_Consume _ = False"

fun is_Dial :: "'o op \<Rightarrow> bool" where
  "is_Dial (Dial _) = True"
| "is_Dial (DialConfig _ _) = True"
| "is_Dial _ = False"

definition everything :: "'o op \<Rightarrow> bool" where
  "everything x = True"

text \<open>\<^verbatim>\<open>fmt.Sprintf("%v", v)\<close> on the booleans.\<close>

definition Sprintf_v_bool :: "bool \<Rightarrow> string" where
  "Sprintf_v_bool b = (if b then ''true'' else ''false'')"

text \<open>The calls issued since the trace \<open>tr\<close>.\<close>

definition issued :: "'o op list \<Rightarrow> 'o op list \<Rightarrow> 'o op list" where
  "issued tr tr' = drop (length tr) tr'"

subsection \<open>Auxiliary notions\<close>

text \<open>
  Every delivery received so far is accounted for, in order: taken by the consumer,
  in the buffer, or still waiting to be forwarded; and the buffer is within its
  capacity.
\<close>

definition accounted :: "('o \<Rightarrow> string) \<Rightarrow> 'o pipeline \<Rightarrow> bool" where
  "accounted Sprintf_v s \<longleftrightarrow>
     consumed s @ buf (messages (subscription s)) @ map (forward Sprintf_v) (msgs s)
       = map (forward Sprintf_v) (received s)
     \<and> length (buf (messages (subscription s))) \<le> cap (messages (subscription s))"

text \<open>
  A consumer that keeps receiving: it empties the buffer, then takes each waiting
  delivery as the loop forwards it.
\<close>

definition drain :: "'o pipeline \<Rightarrow> 'o event list" where
  "drain s = replicate (length (buf (messages (subscription s)))) Receives
             @ replicate (length (msgs s)) Hands_over"







section \<open>Header conversion\<close>

lemma fold_update_fresh:
  "distinct (map fst acc @ map fst xs) \<Longrightarrow>
   fold (\<lambda>(k, v) m. AList.update k (f v) m) xs acc = acc @ map (\<lambda>(k, v). (k, f v)) xs"
proof (induction xs arbitrary: acc)
  case Nil
  then show ?case by simp
next
  case (Cons x xs)
  obtain k v where x: "x = (k, v)" by (cases x)
  from Cons.prems x have fresh: "k \<notin> fst ` set acc" by auto
  then have upd: "AList.update k (f v) acc = acc @ [(k, f v)]"
    by (induction acc) auto
  from Cons.prems x have "distinct (map fst (acc @ [(k, f v)]) @ map fst xs)" by auto
  from Cons.IH [OF this] show ?case by (simp add: x upd)
qed

lemma encode_headers_map:
  "distinct (map fst h) \<Longrightarrow> encode_headers h = map (\<lambda>(k, v). (k, Bytes v)) h"
  unfolding encode_headers_def using fold_update_fresh [of "[]" h Bytes] by simp

lemma decode_headers_map:
  "distinct (map fst t) \<Longrightarrow>
   decode_headers Sprintf_v t = map (\<lambda>(k, v). (k, coerce Sprintf_v v)) t"
  unfolding decode_headers_def using fold_update_fresh [of "[]" t "coerce Sprintf_v"] by simp

lemma map_fst_relabel: "map fst (map (\<lambda>(k, v). (k, f v)) xs) = map fst xs"
  by (induction xs) auto

lemma map_of_relabel: "map_of (map (\<lambda>(k, v). (k, f v)) xs) k = map_option f (map_of xs k)"
  by (induction xs) auto


text \<open>
  Claim C1. Publishing turns the headers into a wire table with one entry per key,
  each value passed through unchanged as a byte slice. The delivery loop turns a wire
  table into headers key by key: a byte slice is kept, a string becomes its bytes, any
  other value becomes the bytes of its default rendering. Decoding the encoding of
  headers \<open>h\<close> gives back \<open>h\<close>.
\<close>

theorem header_round_trip:
  assumes "distinct (map fst h)" and "distinct (map fst t)"
  shows "map fst (encode_headers h :: 'o Table) = map fst h
       \<and> (\<forall>k. map_of (encode_headers h :: 'o Table) k = map_option Bytes (map_of h k))
       \<and> map fst (decode_headers Sprintf_v t) = map fst t
       \<and> (\<forall>k. map_of (decode_headers Sprintf_v t) k = map_option (coerce Sprintf_v) (map_of t k))
       \<and> coerce Sprintf_v (Bytes b) = b
       \<and> coerce Sprintf_v (Str s) = bytes_of_string s
       \<and> coerce Sprintf_v (Other x) = bytes_of_string (Sprintf_v x)
       \<and> decode_headers Sprintf_v (encode_headers h :: 'o Table) = h"
proof -
  have enc: "(encode_headers h :: 'o Table) = map (\<lambda>(k, v). (k, Bytes v)) h"
    using assms(1) by (rule encode_headers_map)
  have dec: "decode_headers Sprintf_v t = map (\<lambda>(k, v). (k, coerce Sprintf_v v)) t"
    using assms(2) by (rule decode_headers_map)
  have "distinct (map fst (encode_headers h :: 'o Table))"
    using assms(1) by (simp only: enc map_fst_relabel)
  then have "decode_headers Sprintf_v (encode_headers h :: 'o Table)
               = map (\<lambda>(k, v). (k, coerce Sprintf_v v)) (encode_headers h :: 'o Table)"
    by (rule decode_headers_map)
  also have "\<dots> = h"
    unfolding enc by (induction h) auto
  finally have rt: "decode_headers Sprintf_v (encode_headers h :: 'o Table) = h" .
  have keys: "map fst (map (\<lambda>(k, v). (k, f v)) xs) = map fst xs" for f :: "'a \<Rightarrow> 'b" and xs :: "(string \<times> 'a) list"
    by (rule map_fst_relabel)
  show ?thesis
    unfolding enc dec keys map_of_relabel using rt [unfolded enc] by simp
qed

theorem header_round_trip_witness:
  "distinct (map fst [(''id'', [1, 2 :: byte]), (''trace'', [])])
   \<and> distinct (map fst [(''a'', Str ''hi''), (''b'', Other True), (''c'', Bytes [7])])
   \<and> decode_headers Sprintf_v_bool
        (encode_headers [(''id'', [1, 2]), (''trace'', [])] :: bool Table)
      = [(''id'', [1, 2]), (''trace'', [])]
   \<and> map_of (decode_headers Sprintf_v_bool [(''a'', Str ''hi''), (''b'', Other True), (''c'', Bytes [7])]) ''b''
      = Some (bytes_of_string ''true'')"
  using header_round_trip [of "[(''id'', [1, 2]), (''trace'', [])]"
      "[(''a'', Str ''hi''), (''b'', Other True), (''c'', Bytes [7])]" Sprintf_v_bool]
  by (simp add: Sprintf_v_bool_def)


section \<open>Publish and Subscribe on the wire\<close>

lemma issued_append [simp]: "issued tr (tr @ xs) = xs"
  by (simp add: issued_def)

lemma issued_self [simp]: "issued tr tr = []"
  by (simp add: issued_def)

lemma Publish_unfold:
  "Publish T c q bm tr =
     (case connection c of
        None \<Rightarrow> (Panics, tr)
      | Some conn \<Rightarrow>
          (case T (tr @ [Channel conn]) of
             Some err \<Rightarrow> (Returns (Some err), tr @ [Channel conn])
           | None \<Rightarrow>
               (case T (tr @ [Channel conn, QueueDeclare (length tr) q False False False False None]) of
                  Some err \<Rightarrow>
                    (Returns (Some (Errorf ''failed to declare queue: '' err)),
                     tr @ [Channel conn, QueueDeclare (length tr) q False False False False None,
                           ChannelClose (length tr)])
                | None \<Rightarrow>
                    (Returns (T (tr @ [Channel conn, QueueDeclare (length tr) q False False False False None,
                                 ChannelPublish (length tr) [] q False False
                                   \<lparr>ContentType = ''text/plain'', Publishing_Body = Payload bm,
                                    Publishing_Headers = encode_headers (Headers bm)\<rparr>])),
                     tr @ [Channel conn, QueueDeclare (length tr) q False False False False None,
                           ChannelPublish (length tr) [] q False False
                             \<lparr>ContentType = ''text/plain'', Publishing_Body = Payload bm,
                              Publishing_Headers = encode_headers (Headers bm)\<rparr>,
                           ChannelClose (length tr)]))))"
  by (simp add: Publish_def publish_on_def call_def split: option.splits)

lemma Subscribe_unfold:
  "Subscribe n T c q tr =
     (case connection c of
        None \<Rightarrow> (Panics, tr, [])
      | Some conn \<Rightarrow>
          (case T (tr @ [Channel conn]) of
             Some err \<Rightarrow> (Returns (Inl err), tr @ [Channel conn], [])
           | None \<Rightarrow>
               (case T (tr @ [Channel conn, QueueDeclare (length tr) q False False False False None]) of
                  Some err \<Rightarrow>
                    (Returns (Inl (Errorf ''failed to declare queue: '' err)),
                     tr @ [Channel conn, QueueDeclare (length tr) q False False False False None], [])
                | None \<Rightarrow>
                    (case T (tr @ [Channel conn, QueueDeclare (length tr) q False False False False None,
                                   Consume (length tr) q [] False False False False None]) of
                       Some err \<Rightarrow>
                         (Returns (Inl (Errorf ''failed to start consuming from queue: '' err)),
                          tr @ [Channel conn, QueueDeclare (length tr) q False False False False None,
                                Consume (length tr) q [] False False False False None], [])
                     | None \<Rightarrow>
                         (Returns (Inr \<lparr>messages = \<lparr>cap = n, buf = []\<rparr>, cancel = \<lparr>cap = 1, buf = []\<rparr>\<rparr>),
                          tr @ [Channel conn, QueueDeclare (length tr) q False False False False None,
                                Consume (length tr) q [] False False False False None],
                          [WaitForCancellation (length tr) (logger c), Forwarding (length tr)])))))"
  by (simp add: Subscribe_def call_def NewBrokerChannelSubscription_def make_chan_def Let_def
           split: option.splits)

text \<open>
  Claim C3. Every queue declaration that \<^verbatim>\<open>Publish\<close> or \<^verbatim>\<open>Subscribe\<close> issues names
  the destination and is not durable, not exclusive and not auto-delete; every send
  that \<^verbatim>\<open>Publish\<close> issues goes to the default exchange with the destination as
  routing key, content type \<^verbatim>\<open>text/plain\<close> and the payload as its body, whatever
  the payload is. The declaration is issued whenever the channel could be opened,
  and the send whenever the declaration succeeded.
\<close>

theorem fixed_wire_parameters:
  "(\<forall>ch name durable autoDelete exclusive noWait args.
       QueueDeclare ch name durable autoDelete exclusive noWait args
         \<in> set (issued tr (snd (Publish T c q bm tr)))
           \<union> set (issued tr (fst (snd (Subscribe n T c q tr))))
       \<longrightarrow> name = q \<and> \<not> durable \<and> \<not> exclusive \<and> \<not> autoDelete)
   \<and> (\<forall>ch exchange key mandatory immediate msg.
       ChannelPublish ch exchange key mandatory immediate msg \<in> set (issued tr (snd (Publish T c q bm tr)))
       \<longrightarrow> exchange = [] \<and> key = q \<and> ContentType msg = ''text/plain''
           \<and> Publishing_Body msg = Payload bm)
   \<and> (connection c = Some conn \<and> T (tr @ [Channel conn]) = None
       \<longrightarrow> QueueDeclare (length tr) q False False False False None
             \<in> set (issued tr (snd (Publish T c q bm tr)))
               \<inter> set (issued tr (fst (snd (Subscribe n T c q tr)))))
   \<and> (connection c = Some conn \<and> T (tr @ [Channel conn]) = None
        \<and> T (tr @ [Channel conn, QueueDeclare (length tr) q False False False False None]) = None
       \<longrightarrow> (\<exists>headers. ChannelPublish (length tr) [] q False False
                \<lparr>ContentType = ''text/plain'', Publishing_Body = Payload bm,
                 Publishing_Headers = headers\<rparr>
             \<in> set (issued tr (snd (Publish T c q bm tr)))))"
  by (auto simp: Publish_unfold Subscribe_unfold split: option.splits)

theorem fixed_wire_parameters_witness:
  "connection test_controller = Some 0
   \<and> (healthy :: bool transport) (test_trace @ [Channel 0]) = None
   \<and> (healthy :: bool transport)
        (test_trace @ [Channel 0, QueueDeclare (length (test_trace :: bool op list)) ''TestQueueAck''
                                    False False False False None]) = None
   \<and> QueueDeclare 1 ''TestQueueAck'' False False False False None
       \<in> set (issued test_trace
                 (snd (Publish (healthy :: bool transport) test_controller ''TestQueueAck''
                         test_message test_trace)))
         \<inter> set (issued test_trace
                 (fst (snd (Subscribe 64 (healthy :: bool transport) test_controller ''TestQueueAck''
                              test_trace))))
   \<and> ChannelPublish 1 [] ''TestQueueAck'' False False
        \<lparr>ContentType = ''text/plain'', Publishing_Body = bytes_of_string ''testmessage'',
         Publishing_Headers = [(''id'', Bytes [1])]\<rparr>
       \<in> set (issued test_trace
                 (snd (Publish (healthy :: bool transport) test_controller ''TestQueueAck''
                         test_message test_trace)))"
  using fixed_wire_parameters [where T = "healthy :: bool transport" and c = test_controller
      and tr = test_trace and q = "''TestQueueAck''" and bm = test_message and n = 64 and conn = 0]
  by (simp add: healthy_def Publish_unfold Subscribe_unfold encode_headers_def issued_def
        test_controller_def test_trace_def test_message_def)

text \<open>
  Claim C4. On a connected controller \<^verbatim>\<open>Publish\<close> returns, and it returns an error
  exactly when opening the channel, declaring the queue or sending fails. When the
  open fails nothing else is attempted; when the declaration fails no send is
  attempted. Whenever the channel was opened, its close is the last call of
  \<^verbatim>\<open>Publish\<close> and is issued once, on success and on failure alike, and a failure of
  that close is not reported.
\<close>

theorem Publish_errors_and_close:
  assumes "connection c = Some conn"
  shows "let opened = tr @ [Channel conn];
             declared = opened @ [QueueDeclare (length tr) q False False False False None];
             sent = declared @ [ChannelPublish (length tr) [] q False False
                      \<lparr>ContentType = ''text/plain'', Publishing_Body = Payload bm,
                       Publishing_Headers = encode_headers (Headers bm)\<rparr>]
         in \<exists>r tr'. Publish T c q bm tr = (Returns r, tr')
              \<and> (r \<noteq> None \<longleftrightarrow> T opened \<noteq> None \<or> T declared \<noteq> None \<or> T sent \<noteq> None)
              \<and> (if T opened \<noteq> None then r = T opened \<and> tr' = opened
                  else if T declared \<noteq> None
                    then r = map_option (Errorf ''failed to declare queue: '') (T declared)
                       \<and> tr' = declared @ [ChannelClose (length tr)]
                  else r = T sent \<and> tr' = sent @ [ChannelClose (length tr)])
              \<and> (T opened = None \<longrightarrow>
                    last tr' = ChannelClose (length tr)
                  \<and> count_list (issued tr tr') (ChannelClose (length tr)) = 1)"
  using assms by (auto simp: Publish_unfold Let_def split: option.splits)

theorem Publish_errors_and_close_witness:
  "connection test_controller = Some 0
   \<and> (refusing is_QueueDeclare :: bool transport) (test_trace @ [Channel 0]) = None
   \<and> Publish (refusing is_QueueDeclare :: bool transport) test_controller ''TestQueueAck''
        test_message test_trace
      = (Returns (Some (Errorf ''failed to declare queue: '' (AmqpError ''refused''))),
         [Dial ''amqp://rabbitmq:5672'', Channel 0,
          QueueDeclare 1 ''TestQueueAck'' False False False False None, ChannelClose 1])
   \<and> Publish (refusing is_ChannelPublish :: bool transport) test_controller ''TestQueueAck''
        test_message test_trace
      = (Returns (Some (AmqpError ''refused'')),
         [Dial ''amqp://rabbitmq:5672'', Channel 0,
          QueueDeclare 1 ''TestQueueAck'' False False False False None,
          ChannelPublish 1 [] ''TestQueueAck'' False False
            \<lparr>ContentType = ''text/plain'', Publishing_Body = bytes_of_string ''testmessage'',
             Publishing_Headers = [(''id'', Bytes [1])]\<rparr>,
          ChannelClose 1])
   \<and> Publish (refusing is_Channel :: bool transport) test_controller ''TestQueueAck''
        test_message test_trace
      = (Returns (Some (AmqpError ''refused'')), [Dial ''amqp://rabbitmq:5672'', Channel 0])
   \<and> Publish (healthy :: bool transport) test_controller ''TestQueueAck'' test_message test_trace
      = (Returns None,
         [Dial ''amqp://rabbitmq:5672'', Channel 0,
          QueueDeclare 1 ''TestQueueAck'' False False False False None,
          ChannelPublish 1 [] ''TestQueueAck'' False False
            \<lparr>ContentType = ''text/plain'', Publishing_Body = bytes_of_string ''testmessage'',
             Publishing_Headers = [(''id'', Bytes [1])]\<rparr>,
          ChannelClose 1])"
  using Publish_errors_and_close [where T = "refusing is_QueueDeclare :: bool transport"
      and c = test_controller and conn = 0 and tr = test_trace and q = "''TestQueueAck''"
      and bm = test_message]
    Publish_errors_and_close [where T = "refusing is_ChannelPublish :: bool transport"
      and c = test_controller and conn = 0 and tr = test_trace and q = "''TestQueueAck''"
      and bm = test_message]
    Publish_errors_and_close [where T = "refusing is_Channel :: bool transport"
      and c = test_controller and conn = 0 and tr = test_trace and q = "''TestQueueAck''"
      and bm = test_message]
    Publish_errors_and_close [where T = "healthy :: bool transport"
      and c = test_controller and conn = 0 and tr = test_trace and q = "''TestQueueAck''"
      and bm = test_message]
  by (simp add: healthy_def refusing_def Publish_unfold encode_headers_def
        test_controller_def test_trace_def test_message_def)

text \<open>
  Claim C5. On a connected controller \<^verbatim>\<open>Subscribe\<close> returns, and it returns an
  error, with no subscription and no task started, exactly when opening the channel,
  declaring the queue or starting to consume fails. When all three succeed it returns
  the subscription made at its start, it has not closed the channel, and it has
  started the cancellation waiter and the forwarding loop on that channel.
\<close>

theorem Subscribe_errors:
  assumes "connection c = Some conn"
  shows "let opened = tr @ [Channel conn];
             declared = opened @ [QueueDeclare (length tr) q False False False False None];
             consuming = declared @ [Consume (length tr) q [] False False False False None]
         in \<exists>r tr' tasks. Subscribe n T c q tr = (Returns r, tr', tasks)
              \<and> ((\<exists>err. r = Inl err) \<longleftrightarrow> T opened \<noteq> None \<or> T declared \<noteq> None \<or> T consuming \<noteq> None)
              \<and> (if T opened \<noteq> None then r = Inl (the (T opened)) \<and> tr' = opened \<and> tasks = []
                  else if T declared \<noteq> None
                    then r = Inl (Errorf ''failed to declare queue: '' (the (T declared)))
                       \<and> tr' = declared \<and> tasks = []
                  else if T consuming \<noteq> None
                    then r = Inl (Errorf ''failed to start consuming from queue: '' (the (T consuming)))
                       \<and> tr' = consuming \<and> tasks = []
                  else r = Inr (NewBrokerChannelSubscription (make_chan n) (make_chan 1))
                       \<and> tr' = consuming
                       \<and> ChannelClose (length tr) \<notin> set (issued tr tr')
                       \<and> tasks = [WaitForCancellation (length tr) (logger c), Forwarding (length tr)])"
  using assms
  by (auto simp: Subscribe_unfold Let_def NewBrokerChannelSubscription_def make_chan_def
           split: option.splits)

theorem Subscribe_errors_witness:
  "connection test_controller = Some 0
   \<and> Subscribe 64 (healthy :: bool transport) test_controller ''TestQueueAck'' test_trace
      = (Returns (Inr \<lparr>messages = \<lparr>cap = 64, buf = []\<rparr>, cancel = \<lparr>cap = 1, buf = []\<rparr>\<rparr>),
         [Dial ''amqp://rabbitmq:5672'', Channel 0,
          QueueDeclare 1 ''TestQueueAck'' False False False False None,
          Consume 1 ''TestQueueAck'' [] False False False False None],
         [WaitForCancellation 1 DummyLogger, Forwarding 1])
   \<and> Subscribe 64 (refusing is_Consume :: bool transport) test_controller ''TestQueueAck'' test_trace
      = (Returns (Inl (Errorf ''failed to start consuming from queue: '' (AmqpError ''refused''))),
         [Dial ''amqp://rabbitmq:5672'', Channel 0,
          QueueDeclare 1 ''TestQueueAck'' False False False False None,
          Consume 1 ''TestQueueAck'' [] False False False False None],
         [])
   \<and> Subscribe 64 (refusing is_QueueDeclare :: bool transport) test_controller ''TestQueueAck''
        test_trace
      = (Returns (Inl (Errorf ''failed to declare queue: '' (AmqpError ''refused''))),
         [Dial ''amqp://rabbitmq:5672'', Channel 0,
          QueueDeclare 1 ''TestQueueAck'' False False False False None],
         [])
   \<and> Subscribe 64 (refusing is_Channel :: bool transport) test_controller ''TestQueueAck'' test_trace
      = (Returns (Inl (AmqpError ''refused'')), [Dial ''amqp://rabbitmq:5672'', Channel 0], [])"
  using Subscribe_errors [where T = "healthy :: bool transport" and c = test_controller
      and conn = 0 and tr = test_trace and q = "''TestQueueAck''" and n = 64]
    Subscribe_errors [where T = "refusing is_Consume :: bool transport" and c = test_controller
      and conn = 0 and tr = test_trace and q = "''TestQueueAck''" and n = 64]
    Subscribe_errors [where T = "refusing is_QueueDeclare :: bool transport" and c = test_controller
      and conn = 0 and tr = test_trace and q = "''TestQueueAck''" and n = 64]
    Subscribe_errors [where T = "refusing is_Channel :: bool transport" and c = test_controller
      and conn = 0 and tr = test_trace and q = "''TestQueueAck''" and n = 64]
  by (simp add: healthy_def refusing_def Subscribe_unfold test_controller_def test_trace_def)


section \<open>Construction\<close>

lemma execute_options_append:
  "execute_options T (xs @ ys) c tr =
     (case execute_options T xs c tr of
        (Inl err, tr') \<Rightarrow> (Inl err, tr')
      | (Inr c', tr') \<Rightarrow> execute_options T ys c' tr')"
  by (induction xs arbitrary: c tr) (auto split: prod.splits option.splits sum.splits)

text \<open>
  Claim C6. \<^verbatim>\<open>NewController\<close> runs the options from left to right on the default
  controller. The loop over no option leaves the controller as it is; over a list it
  runs the first option, ends with the wrapped error if that option fails, the later
  ones not run, and otherwise goes on with the rest from the controller and the trace
  that the option left; and wherever the list is cut, the later options start from
  what the earlier ones left. After the options the address is dialled only if no
  connection has been set; a failed dial is an error. What is returned is either an
  error or a controller, and a returned controller is connected.
\<close>

theorem NewController_construction:
  "execute_options T [] c0 tr = (Inr c0, tr)
   \<and> execute_options T (option # options) c0 tr =
       (case option T c0 tr of
          ((Some err, c1), tr1) \<Rightarrow>
            (Inl (Errorf ''could not apply option to controller: '' err), tr1)
        | ((None, c1), tr1) \<Rightarrow> execute_options T options c1 tr1)
   \<and> execute_options T (xs @ ys) c0 tr =
       (case execute_options T xs c0 tr of
          (Inl err, tr1) \<Rightarrow> (Inl err, tr1)
        | (Inr c1, tr1) \<Rightarrow> execute_options T ys c1 tr1)
   \<and> (case execute_options T xs
           \<lparr>url = u, connection = None, logger = DummyLogger, queueGroup = D\<rparr> tr of
      (Inl err, tr1) \<Rightarrow> NewController D T u (xs @ ys) tr = (Inl err, tr1)
    | (Inr c1, tr1) \<Rightarrow>
        (case execute_options T ys c1 tr1 of
           (Inl err, tr2) \<Rightarrow> NewController D T u (xs @ ys) tr = (Inl err, tr2)
         | (Inr c2, tr2) \<Rightarrow>
             (case connection c2 of
                Some conn \<Rightarrow> NewController D T u (xs @ ys) tr = (Inr c2, tr2)
              | None \<Rightarrow>
                  (case T (tr2 @ [Dial u]) of
                     Some err \<Rightarrow>
                       NewController D T u (xs @ ys) tr
                         = (Inl (Errorf ''could not connect to RabbitMQ: '' err), tr2 @ [Dial u])
                   | None \<Rightarrow>
                       NewController D T u (xs @ ys) tr
                         = (Inr (c2\<lparr>connection := Some (length tr2)\<rparr>), tr2 @ [Dial u])))))
   \<and> (\<forall>c tr'. NewController D T u (xs @ ys) tr = (Inr c, tr') \<longrightarrow> connection c \<noteq> None)"
proof -
  have app: "execute_options T (xs @ ys) c tr =
       (case execute_options T xs c tr of
          (Inl err, tr1) \<Rightarrow> (Inl err, tr1)
        | (Inr c1, tr1) \<Rightarrow> execute_options T ys c1 tr1)" for c
    by (rule execute_options_append)
  have cons: "execute_options T (option # options) c0 tr =
       (case option T c0 tr of
          ((Some err, c1), tr1) \<Rightarrow>
            (Inl (Errorf ''could not apply option to controller: '' err), tr1)
        | ((None, c1), tr1) \<Rightarrow> execute_options T options c1 tr1)"
    by (simp split: prod.splits option.splits)
  have new: "(case execute_options T xs
           \<lparr>url = u, connection = None, logger = DummyLogger, queueGroup = D\<rparr> tr of
      (Inl err, tr1) \<Rightarrow> NewController D T u (xs @ ys) tr = (Inl err, tr1)
    | (Inr c1, tr1) \<Rightarrow>
        (case execute_options T ys c1 tr1 of
           (Inl err, tr2) \<Rightarrow> NewController D T u (xs @ ys) tr = (Inl err, tr2)
         | (Inr c2, tr2) \<Rightarrow>
             (case connection c2 of
                Some conn \<Rightarrow> NewController D T u (xs @ ys) tr = (Inr c2, tr2)
              | None \<Rightarrow>
                  (case T (tr2 @ [Dial u]) of
                     Some err \<Rightarrow>
                       NewController D T u (xs @ ys) tr
                         = (Inl (Errorf ''could not connect to RabbitMQ: '' err), tr2 @ [Dial u])
                   | None \<Rightarrow>
                       NewController D T u (xs @ ys) tr
                         = (Inr (c2\<lparr>connection := Some (length tr2)\<rparr>), tr2 @ [Dial u])))))"
    by (auto simp: NewController_def execute_options_append call_def
             split: prod.splits option.splits sum.splits if_splits)
  have conn: "\<forall>c tr'. NewController D T u (xs @ ys) tr = (Inr c, tr') \<longrightarrow> connection c \<noteq> None"
    by (auto simp: NewController_def call_def
             split: prod.splits option.splits sum.splits if_splits)
  from app [of c0] cons new conn show ?thesis
    by (simp only: execute_options.simps(1) simp_thms)
qed

theorem NewController_construction_witness:
  "NewController ''asyncapi'' (healthy :: bool transport) ''amqp://rabbitmq:5672''
      ([WithLogger (CustomLogger 1), WithQueueGroup ''first''] @ [WithQueueGroup ''second'']) []
     = (Inr \<lparr>url = ''amqp://rabbitmq:5672'', connection = Some 0, logger = CustomLogger 1,
             queueGroup = ''second''\<rparr>,
        [Dial ''amqp://rabbitmq:5672''])
   \<and> connection \<lparr>url = ''amqp://rabbitmq:5672'', connection = Some 0, logger = CustomLogger 1,
             queueGroup = ''second''\<rparr> \<noteq> None
   \<and> NewController ''asyncapi'' (healthy :: bool transport) ''amqp://rabbitmq:5672''
      ([WithConnectionOpts (Config ''tls'')] @ [WithQueueGroup ''second'']) []
     = (Inr \<lparr>url = ''amqp://rabbitmq:5672'', connection = Some 0, logger = DummyLogger,
             queueGroup = ''second''\<rparr>,
        [DialConfig ''amqp://rabbitmq:5672'' (Config ''tls'')])
   \<and> NewController ''asyncapi'' (refusing is_Dial :: bool transport) ''amqp://rabbitmq:5672''
      ([WithQueueGroup ''first''] @ []) []
     = (Inl (Errorf ''could not connect to RabbitMQ: '' (AmqpError ''refused'')),
        [Dial ''amqp://rabbitmq:5672''])
   \<and> NewController ''asyncapi'' (refusing is_Dial :: bool transport) ''amqp://rabbitmq:5672''
      ([WithConnectionOpts (Config ''tls'')] @ [WithQueueGroup ''second'']) []
     = (Inl (Errorf ''could not apply option to controller: ''
               (Errorf ''could not connect to RabbitMQ: '' (AmqpError ''refused''))),
        [DialConfig ''amqp://rabbitmq:5672'' (Config ''tls'')])"
  using NewController_construction [where T = "healthy :: bool transport" and D = "''asyncapi''"
      and u = "''amqp://rabbitmq:5672''" and tr = "[]"
      and xs = "[WithLogger (CustomLogger 1), WithQueueGroup ''first'']"
      and ys = "[WithQueueGroup ''second'']"]
    NewController_construction [where T = "healthy :: bool transport" and D = "''asyncapi''"
      and u = "''amqp://rabbitmq:5672''" and tr = "[]"
      and xs = "[WithConnectionOpts (Config ''tls'')]" and ys = "[WithQueueGroup ''second'']"]
    NewController_construction [where T = "refusing is_Dial :: bool transport" and D = "''asyncapi''"
      and u = "''amqp://rabbitmq:5672''" and tr = "[]"
      and xs = "[WithQueueGroup ''first'']" and ys = "[]"]
    NewController_construction [where T = "refusing is_Dial :: bool transport" and D = "''asyncapi''"
      and u = "''amqp://rabbitmq:5672''" and tr = "[]"
      and xs = "[WithConnectionOpts (Config ''tls'')]" and ys = "[WithQueueGroup ''second'']"]
  by (simp add: healthy_def refusing_def WithLogger_def WithQueueGroup_def WithConnectionOpts_def
        call_def)

section \<open>Acknowledgement\<close>

text \<open>
  Claim C7. For a handler bound to a delivery, as the one the delivery loop attaches
  to each message is, \<^verbatim>\<open>AckMessage\<close> and \<^verbatim>\<open>NakMessage\<close> return normally on
  every transport, also on one that fails the call: they issue the one
  acknowledgement call and nothing else, no log entry either. \<^verbatim>\<open>NakMessage\<close> asks
  for a rejection of this message alone with requeue off.
\<close>

theorem acknowledgement_fire_and_forget:
  assumes "Delivery h = Some d"
  shows "AckMessage T h tr = (Returns (), tr @ [Ack (DeliveryTag d) False])
       \<and> NakMessage T h tr = (Returns (), tr @ [Nack (DeliveryTag d) False False])
       \<and> Delivery (ack (forward Sprintf_v d)) = Some d"
  using assms by (simp add: AckMessage_def NakMessage_def forward_def call_def)

theorem acknowledgement_fire_and_forget_witness:
  "Delivery (ack (forward Sprintf_v_bool (test_delivery 7))) = Some (test_delivery 7)
   \<and> (refusing everything :: bool transport) ([] @ [Nack 7 False False])
       = Some (AmqpError ''refused'')
   \<and> AckMessage (refusing everything :: bool transport)
        (ack (forward Sprintf_v_bool (test_delivery 7))) []
       = (Returns (), [Ack 7 False])
   \<and> NakMessage (refusing everything :: bool transport)
        (ack (forward Sprintf_v_bool (test_delivery 7))) []
       = (Returns (), [Nack 7 False False])"
  using acknowledgement_fire_and_forget [where T = "refusing everything :: bool transport"
      and h = "ack (forward Sprintf_v_bool (test_delivery 7))" and d = "test_delivery 7"
      and tr = "[]" and Sprintf_v = Sprintf_v_bool]
  by (simp add: forward_def test_delivery_def refusing_def everything_def)

section \<open>The queue group\<close>

text \<open>
  Claim C9. Two controllers that agree on everything but the queue group make the
  same calls with the same arguments and return the same results in \<^verbatim>\<open>Publish\<close>
  and in \<^verbatim>\<open>Subscribe\<close>, on every transport and from every trace.
\<close>

theorem queueGroup_not_observed:
  assumes "url c1 = url c2" and "connection c1 = connection c2" and "logger c1 = logger c2"
  shows "Publish T c1 q bm tr = Publish T c2 q bm tr
       \<and> Subscribe n T c1 q tr = Subscribe n T c2 q tr"
  using assms by (simp add: Publish_unfold Subscribe_unfold split: option.splits)

theorem queueGroup_not_observed_witness:
  "url test_controller = url (test_controller\<lparr>queueGroup := ''ping-apps''\<rparr>)
   \<and> connection test_controller = connection (test_controller\<lparr>queueGroup := ''ping-apps''\<rparr>)
   \<and> logger test_controller = logger (test_controller\<lparr>queueGroup := ''ping-apps''\<rparr>)
   \<and> queueGroup test_controller \<noteq> queueGroup (test_controller\<lparr>queueGroup := ''ping-apps''\<rparr>)
   \<and> Publish (healthy :: bool transport) test_controller ''TestQueueAck'' test_message test_trace
       = Publish healthy (test_controller\<lparr>queueGroup := ''ping-apps''\<rparr>) ''TestQueueAck''
           test_message test_trace
   \<and> Subscribe 64 (healthy :: bool transport) test_controller ''TestQueueAck'' test_trace
       = Subscribe 64 healthy (test_controller\<lparr>queueGroup := ''ping-apps''\<rparr>) ''TestQueueAck''
           test_trace"
  using queueGroup_not_observed [where ?c1.0 = test_controller
      and ?c2.0 = "test_controller\<lparr>queueGroup := ''ping-apps''\<rparr>"
      and T = "healthy :: bool transport" and q = "''TestQueueAck''" and bm = test_message
      and tr = test_trace and n = 64]
  by (simp add: test_controller_def)

section \<open>Close\<close>

text \<open>
  Claim C10. On a controller without a connection \<^verbatim>\<open>Close\<close> makes no call to the
  transport and leaves the trace as it was.
\<close>

theorem Close_without_connection:
  assumes "connection c = None"
  shows "Close T c tr = tr"
  using assms by (simp add: Close_def)

theorem Close_without_connection_witness:
  "connection \<lparr>url = [], connection = None, logger = DummyLogger, queueGroup = []\<rparr> = None
   \<and> Close (refusing everything :: bool transport)
        \<lparr>url = [], connection = None, logger = DummyLogger, queueGroup = []\<rparr> [] = []"
  using Close_without_connection [where T = "refusing everything :: bool transport" and tr = "[]"
      and c = "\<lparr>url = [], connection = None, logger = DummyLogger, queueGroup = []\<rparr>"]
  by simp


section \<open>The delivery pipeline\<close>

lemma step_accounted:
  "step Sprintf_v s e = Some s' \<Longrightarrow> accounted Sprintf_v s \<Longrightarrow>
   accounted Sprintf_v s' \<and> cap (messages (subscription s')) = cap (messages (subscription s))
   \<and> received s' = received s @ arrivals [e]"
  by (cases e)
     (auto simp: accounted_def TransmitReceivedMessage_def split: list.splits if_splits)

lemma arrivals_Cons: "arrivals (e # es) = arrivals [e] @ arrivals es"
  by (cases e) simp_all

lemma run_accounted:
  "run Sprintf_v s es = Some s' \<Longrightarrow> accounted Sprintf_v s \<Longrightarrow>
   accounted Sprintf_v s' \<and> cap (messages (subscription s')) = cap (messages (subscription s))
   \<and> received s' = received s @ arrivals es"
proof (induction es arbitrary: s)
  case Nil
  then show ?case by simp
next
  case (Cons e es)
  from Cons.prems(1) obtain s1 where s1: "step Sprintf_v s e = Some s1"
    and rest: "run Sprintf_v s1 es = Some s'"
    by (auto split: option.splits)
  from step_accounted [OF s1 Cons.prems(2)] Cons.IH [OF rest]
  show ?case by (simp add: arrivals_Cons [of e es])
qed

lemma run_append:
  "run Sprintf_v s (xs @ ys) =
     (case run Sprintf_v s xs of None \<Rightarrow> None | Some s' \<Rightarrow> run Sprintf_v s' ys)"
  by (induction xs arbitrary: s) (auto split: option.splits)

lemma run_Receives:
  "buf (messages (subscription s)) = ms \<Longrightarrow>
   run Sprintf_v s (replicate (length ms) Receives)
     = Some (s\<lparr>subscription := (subscription s)\<lparr>messages := (messages (subscription s))\<lparr>buf := []\<rparr>\<rparr>,
               consumed := consumed s @ ms\<rparr>)"
proof (induction ms arbitrary: s)
  case Nil
  then show ?case by simp
next
  case (Cons m ms)
  then show ?case by simp
qed

lemma run_Hands_over:
  "buf (messages (subscription s)) = [] \<Longrightarrow> msgs s = ds \<Longrightarrow>
   run Sprintf_v s (replicate (length ds) Hands_over)
     = Some (s\<lparr>msgs := [], consumed := consumed s @ map (forward Sprintf_v) ds\<rparr>)"
proof (induction ds arbitrary: s)
  case Nil
  then show ?case by simp
next
  case (Cons d ds)
  then show ?case by simp
qed

lemma arrivals_append: "arrivals (xs @ ys) = arrivals xs @ arrivals ys"
  by (induction xs rule: arrivals.induct) simp_all

lemma arrivals_replicate:
  "arrivals (replicate k Receives) = []" "arrivals (replicate k Hands_over) = []"
  by (induction k) simp_all

lemma arrivals_drain: "arrivals (drain s) = []"
  by (simp add: drain_def arrivals_append arrivals_replicate)

lemma run_drain:
  "\<exists>s'. run Sprintf_v s (drain s) = Some s'
      \<and> consumed s' = consumed s @ buf (messages (subscription s)) @ map (forward Sprintf_v) (msgs s)
      \<and> msgs s' = [] \<and> buf (messages (subscription s')) = []"
  by (simp add: drain_def run_append run_Receives run_Hands_over)

lemma pipeline_of_accounted:
  "accounted Sprintf_v (pipeline_of (NewBrokerChannelSubscription (make_chan n) (make_chan 1)))"
  by (simp add: accounted_def pipeline_of_def NewBrokerChannelSubscription_def make_chan_def)

lemma Subscribe_Inr:
  "Subscribe n T c q tr = (Returns (Inr sub), tr', tasks) \<Longrightarrow>
   sub = NewBrokerChannelSubscription (make_chan n) (make_chan 1)
   \<and> tasks = [WaitForCancellation (length tr) (logger c), Forwarding (length tr)]"
  by (auto simp: Subscribe_def Let_def call_def split: option.splits)

text \<open>
  Claim C2. After a successful \<^verbatim>\<open>Subscribe\<close> the forwarding loop runs on the
  subscription's buffer, whose capacity is \<open>BrokerMessagesQueueSize\<close> and is never
  exceeded. In every state the pipeline can reach, whatever the order of arrivals,
  transmissions and receptions: the messages the consumer has taken, then those in
  the buffer, then the forwarding of the deliveries still waiting, are exactly the
  forwarding of the deliveries received, in the order received. Nothing is dropped:
  a consumer that keeps receiving gets, with no further arrival, all of them.
\<close>

theorem forwarding_is_fifo:
  assumes "Subscribe BrokerMessagesQueueSize T c q tr = (Returns (Inr sub), tr', tasks)"
      and "run Sprintf_v (pipeline_of sub) es = Some s"
  shows "Forwarding (length tr) \<in> set tasks
       \<and> received s = arrivals es
       \<and> consumed s @ buf (messages (subscription s)) @ map (forward Sprintf_v) (msgs s)
           = map (forward Sprintf_v) (arrivals es)
       \<and> cap (messages (subscription s)) = BrokerMessagesQueueSize
       \<and> length (buf (messages (subscription s))) \<le> BrokerMessagesQueueSize
       \<and> arrivals (drain s) = []
       \<and> (\<exists>s'. run Sprintf_v (pipeline_of sub) (es @ drain s) = Some s'
               \<and> consumed s' = map (forward Sprintf_v) (arrivals es)
               \<and> msgs s' = [] \<and> buf (messages (subscription s')) = [])"
proof -
  from Subscribe_Inr [OF assms(1)]
  have sub: "sub = NewBrokerChannelSubscription (make_chan BrokerMessagesQueueSize) (make_chan 1)"
    and tasks: "Forwarding (length tr) \<in> set tasks"
    by simp_all
  have start: "accounted Sprintf_v (pipeline_of sub)"
    unfolding sub by (rule pipeline_of_accounted)
  from run_accounted [OF assms(2) start]
  have acc: "accounted Sprintf_v s"
    and capacity: "cap (messages (subscription s)) = BrokerMessagesQueueSize"
    and rec: "received s = arrivals es"
    by (simp_all add: sub pipeline_of_def NewBrokerChannelSubscription_def make_chan_def)
  from acc rec
  have fifo: "consumed s @ buf (messages (subscription s)) @ map (forward Sprintf_v) (msgs s)
                = map (forward Sprintf_v) (arrivals es)"
    and bound: "length (buf (messages (subscription s))) \<le> BrokerMessagesQueueSize"
    using capacity by (simp_all add: accounted_def)
  from run_drain [of Sprintf_v s] obtain s' where
    "run Sprintf_v s (drain s) = Some s'"
    "consumed s' = consumed s @ buf (messages (subscription s)) @ map (forward Sprintf_v) (msgs s)"
    "msgs s' = []" "buf (messages (subscription s')) = []"
    by blast
  then have live: "\<exists>s'. run Sprintf_v (pipeline_of sub) (es @ drain s) = Some s'
               \<and> consumed s' = map (forward Sprintf_v) (arrivals es)
               \<and> msgs s' = [] \<and> buf (messages (subscription s')) = []"
    using assms(2) fifo by (simp add: run_append)
  from tasks rec fifo capacity bound live show ?thesis
    by (simp add: arrivals_drain)
qed

theorem forwarding_is_fifo_witness:
  "Subscribe 2 (healthy :: bool transport) test_controller ''TestQueueAck'' test_trace
     = (Returns (Inr (NewBrokerChannelSubscription (make_chan 2) (make_chan 1))),
        [Dial ''amqp://rabbitmq:5672'', Channel 0,
         QueueDeclare 1 ''TestQueueAck'' False False False False None,
         Consume 1 ''TestQueueAck'' [] False False False False None],
        [WaitForCancellation 1 DummyLogger, Forwarding 1])
   \<and> run Sprintf_v_bool (pipeline_of (NewBrokerChannelSubscription (make_chan 2) (make_chan 1)))
        [Arrives (test_delivery 1), Arrives (test_delivery 2), Transmits, Arrives (test_delivery 3),
         Receives, Transmits, Transmits]
     = Some \<lparr>received = [test_delivery 1, test_delivery 2, test_delivery 3], msgs = [],
             subscription =
               \<lparr>messages = \<lparr>cap = 2, buf = [forward Sprintf_v_bool (test_delivery 2),
                                              forward Sprintf_v_bool (test_delivery 3)]\<rparr>,
                cancel = \<lparr>cap = 1, buf = []\<rparr>\<rparr>,
             consumed = [forward Sprintf_v_bool (test_delivery 1)]\<rparr>
   \<and> run Sprintf_v_bool (pipeline_of (NewBrokerChannelSubscription (make_chan 2) (make_chan 1)))
        [Arrives (test_delivery 1), Arrives (test_delivery 2), Arrives (test_delivery 3),
         Transmits, Transmits, Transmits] = None
   \<and> message (forward Sprintf_v_bool (test_delivery 1))
       = \<lparr>Headers = [(''redelivered'', bytes_of_string ''false'')],
          Payload = bytes_of_string ''testmessage''\<rparr>"
proof -
  have h1: "Subscribe 2 (healthy :: bool transport) test_controller ''TestQueueAck'' test_trace
     = (Returns (Inr (NewBrokerChannelSubscription (make_chan 2) (make_chan 1))),
        [Dial ''amqp://rabbitmq:5672'', Channel 0,
         QueueDeclare 1 ''TestQueueAck'' False False False False None,
         Consume 1 ''TestQueueAck'' [] False False False False None],
        [WaitForCancellation 1 DummyLogger, Forwarding 1])"
    by (simp add: Subscribe_unfold healthy_def test_controller_def test_trace_def
          NewBrokerChannelSubscription_def make_chan_def)
  have h2: "run Sprintf_v_bool (pipeline_of (NewBrokerChannelSubscription (make_chan 2) (make_chan 1)))
        [Arrives (test_delivery 1), Arrives (test_delivery 2), Transmits, Arrives (test_delivery 3),
         Receives, Transmits, Transmits]
     = Some \<lparr>received = [test_delivery 1, test_delivery 2, test_delivery 3], msgs = [],
             subscription =
               \<lparr>messages = \<lparr>cap = 2, buf = [forward Sprintf_v_bool (test_delivery 2),
                                              forward Sprintf_v_bool (test_delivery 3)]\<rparr>,
                cancel = \<lparr>cap = 1, buf = []\<rparr>\<rparr>,
             consumed = [forward Sprintf_v_bool (test_delivery 1)]\<rparr>"
    by (simp add: pipeline_of_def NewBrokerChannelSubscription_def make_chan_def
          TransmitReceivedMessage_def)
  have h3: "run Sprintf_v_bool (pipeline_of (NewBrokerChannelSubscription (make_chan 2) (make_chan 1)))
        [Arrives (test_delivery 1), Arrives (test_delivery 2), Arrives (test_delivery 3),
         Transmits, Transmits, Transmits] = None"
    by (simp add: pipeline_of_def NewBrokerChannelSubscription_def make_chan_def
          TransmitReceivedMessage_def)
  have h4: "message (forward Sprintf_v_bool (test_delivery 1))
       = \<lparr>Headers = [(''redelivered'', bytes_of_string ''false'')],
          Payload = bytes_of_string ''testmessage''\<rparr>"
    by (simp add: forward_def test_delivery_def decode_headers_def Sprintf_v_bool_def)
  from forwarding_is_fifo [OF h1 h2] h1 h2 h3 h4 show ?thesis by simp
qed


section \<open>Teardown\<close>




















end
